theory Spec2Isabelle
  imports Complex_Main "HOL-Library.Word" "HOL-Library.Sublist"
begin

section \<open>JavaScript values shared by both scripts\<close>

text \<open>
  A JavaScript string is a sequence of UTF-16 code units, so \<open>substring\<close> and \<open>length\<close>
  count code units. String literals of the scripts are written with \<open>lit\<close>; characters
  outside ASCII are given by their code units.
\<close>

type_synonym jstring = "16 word list"

definition lit :: "string \<Rightarrow> jstring" where
  "lit s = map of_char s"

text \<open>Truthiness of a possibly absent string: \<open>null\<close>, \<open>undefined\<close> and \<open>''\<close> are falsy.\<close>

fun truthy :: "jstring option \<Rightarrow> bool" where
  "truthy None = False"
| "truthy (Some s) = (s \<noteq> [])"

text \<open>An exception value: the constructor's name and the \<open>message\<close> property.\<close>

datatype js_error = JsError (err_name: string) (message: jstring)

text \<open>
  What an \<open>await\<close> of a promise observes: the promise never settles, it rejects, or it
  fulfils with a value.
\<close>

datatype 'a promise = Unsettled | Rejected js_error | Fulfilled 'a

text \<open>
  A \<open>fetch\<close> response: the status code and the outcome of \<open>response.json()\<close>.
  \<open>response.ok\<close> is true exactly for the codes 200 to 299.
\<close>

record 'b response =
  http_status :: nat
  json_body :: "'b promise"

definition ok :: "'b response \<Rightarrow> bool" where
  "ok r = (200 \<le> http_status r \<and> http_status r \<le> 299)"

text \<open>\<open>await (await p).json()\<close> without a look at \<open>ok\<close>.\<close>

fun then_json :: "'b response promise \<Rightarrow> 'b promise" where
  "then_json Unsettled = Unsettled"
| "then_json (Rejected e) = Rejected e"
| "then_json (Fulfilled r) = json_body r"

text \<open>How the run of an \<open>async\<close> function ends: suspended for ever at an \<open>await\<close>,
  with an exception, or with a value.\<close>

datatype 'a completion = Suspended | Throws js_error | Returns 'a

subsection \<open>Tickets as the scripts read them\<close>

text \<open>
  The ticket object as the REST interface gives it to the scripts: \<open>id\<close>, \<open>status\<close> and
  \<open>created_at\<close> are strings, the fields the scripts test for truthiness are optional
  (\<open>None\<close> is \<open>null\<close> or a missing property), and \<open>ai_confidence\<close> is the numeric value of
  the JSON number.
\<close>

record ticket =
  ticket_id :: jstring
  employee_name :: "jstring option"
  employee_email :: "jstring option"
  subject :: "jstring option"
  description :: "jstring option"
  status :: jstring
  ai_category :: "jstring option"
  ai_confidence :: "real option"
  ai_response :: "jstring option"
  created_at :: jstring

text \<open>The object built from the form: \<open>FormData.get\<close> gives \<open>null\<close> for a missing field.\<close>

record ticket_data =
  td_employee_name :: "jstring option"
  td_employee_email :: "jstring option"
  td_subject :: "jstring option"
  td_description :: "jstring option"

subsection \<open>Effects\<close>

text \<open>The argument of \<open>JSON.stringify\<close> in a request body.\<close>

datatype body =
    NoBody
  | FormJson ticket_data
  | TicketJson ticket
  | ObjectJson "(string \<times> jstring) list"

record request =
  url :: jstring
  http_method :: string
  headers :: "(string \<times> string) list"
  req_body :: body

datatype callback = CheckAIHealth

datatype effect =
    PreventDefault
  | Fetch request
  | ConsoleLog jstring
  | ConsoleWarn jstring jstring
  | ConsoleError jstring js_error
  | Alert jstring
  | Confirm jstring
  | SetTimeout callback nat

fun requests :: "effect list \<Rightarrow> request list" where
  "requests [] = []"
| "requests (Fetch r # es) = r # requests es"
| "requests (_ # es) = requests es"

fun timers :: "effect list \<Rightarrow> (callback \<times> nat) list" where
  "timers [] = []"
| "timers (SetTimeout c ms # es) = (c, ms) # timers es"
| "timers (_ # es) = timers es"

fun alerts :: "effect list \<Rightarrow> jstring list" where
  "alerts [] = []"
| "alerts (Alert m # es) = m # alerts es"
| "alerts (_ # es) = alerts es"

section \<open>The submission form: \<open>frontend/js/app.js\<close>\<close>

definition API_BASE :: jstring where
  "API_BASE = lit ''''"

definition N8N_WEBHOOK_URL :: jstring where
  "N8N_WEBHOOK_URL = lit ''http://localhost:5678/webhook/hr-ticket''"

text \<open>
  The page state the script reads and writes. The elements looked up when the script
  loads are those of \<open>index.html\<close>; the AI status block is optional, as the script tests
  it (\<open>if (!aiStatus) return\<close>). \<open>form_defaults\<close> are the values \<open>form.reset()\<close> restores.
\<close>

record ai_status =
  icon_text :: jstring
  status_text :: jstring
  class_list :: "jstring list"

record form_page =
  aiStatus :: "ai_status option"
  aiConnected :: bool
  submit_disabled :: bool
  btn_text :: jstring
  btn_text_display :: jstring
  btn_loading_display :: jstring
  success_display :: jstring
  ticketIdSpan :: jstring
  form_values :: ticket_data
  form_defaults :: ticket_data

definition classList_add :: "jstring \<Rightarrow> jstring list \<Rightarrow> jstring list" where
  "classList_add c cs = (if c \<in> set cs then cs else cs @ [c])"

subsection \<open>\<open>checkAIHealth\<close>\<close>

text \<open>The body of \<open>GET /api/ai/health\<close>; \<open>health_status\<close> is \<open>None\<close> when the property is
  missing or not a string. A body that is not JSON, or is \<open>null\<close>, makes the \<open>try\<close> block
  throw and is a rejected \<open>json_body\<close> here.\<close>

record health =
  health_status :: "jstring option"
  reason :: "jstring option"

definition json_headers :: "(string \<times> string) list" where
  "json_headers = [(''Content-Type'', ''application/json'')]"

text \<open>The request of the probe. Its option \<open>timeout: 8000\<close> is not an option of \<open>fetch\<close>
  and has no effect.\<close>

definition health_request :: request where
  "health_request =
     \<lparr>url = lit ''/api/ai/health'', http_method = ''GET'', headers = [], req_body = NoBody\<rparr>"

definition green :: jstring where "green = [0xD83D, 0xDFE2]"
definition yellow :: jstring where "yellow = [0xD83D, 0xDFE1]"
definition red :: jstring where "red = [0xD83D, 0xDD34]"

text \<open>\<open>health.reason || 'Unknown error'\<close>\<close>

definition reason_or_unknown :: "jstring option \<Rightarrow> jstring" where
  "reason_or_unknown r =
     (case r of
        None \<Rightarrow> lit ''Unknown error''
      | Some s \<Rightarrow> if s = [] then lit ''Unknown error'' else s)"

definition health_connected :: "ai_status \<Rightarrow> form_page \<Rightarrow> form_page" where
  "health_connected a p =
     p\<lparr>aiStatus := Some (a\<lparr>icon_text := green, status_text := lit ''AI Connected'',
                             class_list := classList_add (lit ''connected'') (class_list a)\<rparr>),
       submit_disabled := False,
       aiConnected := True\<rparr>"

definition health_loading :: "ai_status \<Rightarrow> form_page \<Rightarrow> form_page" where
  "health_loading a p =
     p\<lparr>aiStatus := Some (a\<lparr>icon_text := yellow, status_text := lit ''AI Model Loading...'',
                             class_list := classList_add (lit ''loading'') (class_list a)\<rparr>)\<rparr>"

definition health_unavailable :: "jstring option \<Rightarrow> ai_status \<Rightarrow> form_page \<Rightarrow> form_page" where
  "health_unavailable r a p =
     p\<lparr>aiStatus := Some (a\<lparr>icon_text := red,
                             status_text := lit ''AI Unavailable: '' @ reason_or_unknown r,
                             class_list := classList_add (lit ''error'') (class_list a)\<rparr>),
       submit_disabled := False,
       btn_text := lit ''Submit (AI Offline)''\<rparr>"

text \<open>The \<open>catch\<close> block.\<close>

definition health_error :: "ai_status \<Rightarrow> form_page \<Rightarrow> form_page" where
  "health_error a p =
     p\<lparr>aiStatus := Some (a\<lparr>icon_text := red,
                             status_text := lit ''AI Unavailable: Connection error'',
                             class_list := classList_add (lit ''error'') (class_list a)\<rparr>),
       submit_disabled := False,
       btn_text := lit ''Submit (AI Offline)''\<rparr>"

text \<open>
  One run of \<open>checkAIHealth\<close> on page \<open>p\<close>, where \<open>probe\<close> is what the \<open>fetch\<close> of the health
  endpoint does. The result is the page afterwards, the effects in order and how the
  run ends. A run is followed from its call to its end; what other handlers do to the
  page while it waits at an \<open>await\<close> is not part of it.
\<close>

definition checkAIHealth ::
  "form_page \<Rightarrow> health response promise \<Rightarrow> form_page \<times> effect list \<times> unit completion" where
  "checkAIHealth p probe =
     (case aiStatus p of
        None \<Rightarrow> (p, [], Returns ())
      | Some a \<Rightarrow>
          (case then_json probe of
             Unsettled \<Rightarrow> (p, [Fetch health_request], Suspended)
           | Rejected e \<Rightarrow> (health_error a p, [Fetch health_request], Returns ())
           | Fulfilled h \<Rightarrow>
               if health_status h = Some (lit ''connected'') then
                 (health_connected a p, [Fetch health_request], Returns ())
               else if health_status h = Some (lit ''loading'') then
                 (health_loading a p,
                  [Fetch health_request, SetTimeout CheckAIHealth 5000], Returns ())
               else
                 (health_unavailable (reason h) a p, [Fetch health_request], Returns ())))"

subsection \<open>The submit handler\<close>

definition create_request :: "ticket_data \<Rightarrow> request" where
  "create_request d =
     \<lparr>url = API_BASE @ lit ''/api/tickets'', http_method = ''POST'',
      headers = json_headers, req_body = FormJson d\<rparr>"

definition webhook_request :: "ticket \<Rightarrow> request" where
  "webhook_request t =
     \<lparr>url = N8N_WEBHOOK_URL, http_method = ''POST'',
      headers = json_headers, req_body = TicketJson t\<rparr>"

text \<open>\<open>createTicket\<close>: throws on a rejected \<open>fetch\<close>, on a response that is not \<open>ok\<close> and on
  a body that is not JSON.\<close>

definition createTicket ::
  "ticket_data \<Rightarrow> ticket response promise \<Rightarrow> effect list \<times> ticket completion" where
  "createTicket d cr =
     ([Fetch (create_request d)],
      (case cr of
         Unsettled \<Rightarrow> Suspended
       | Rejected e \<Rightarrow> Throws e
       | Fulfilled r \<Rightarrow>
           if \<not> ok r then Throws (JsError ''Error'' (lit ''Failed to create ticket''))
           else (case json_body r of
                   Unsettled \<Rightarrow> Suspended
                 | Rejected e \<Rightarrow> Throws e
                 | Fulfilled t \<Rightarrow> Returns t)))"

text \<open>\<open>triggerN8nWorkflow\<close>: the response is returned whatever its status; a rejected
  \<open>fetch\<close> is logged and the function returns \<open>undefined\<close> (\<open>None\<close>).\<close>

definition triggerN8nWorkflow ::
  "ticket \<Rightarrow> 'w response promise \<Rightarrow> effect list \<times> 'w response option completion" where
  "triggerN8nWorkflow t wh =
     (case wh of
        Unsettled \<Rightarrow> ([Fetch (webhook_request t)], Suspended)
      | Fulfilled r \<Rightarrow>
          ([Fetch (webhook_request t), ConsoleLog (lit ''n8n workflow triggered successfully'')],
           Returns (Some r))
      | Rejected e \<Rightarrow>
          ([Fetch (webhook_request t),
            ConsoleWarn (lit ''Could not reach n8n webhook:'') (message e),
            ConsoleLog (lit ''Ticket created locally. n8n classification pending.'')],
           Returns None))"

definition setLoading :: "bool \<Rightarrow> form_page \<Rightarrow> form_page" where
  "setLoading isLoading p =
     p\<lparr>submit_disabled := isLoading,
       btn_text_display := (if isLoading then lit ''none'' else lit ''inline''),
       btn_loading_display := (if isLoading then lit ''inline-flex'' else lit ''none'')\<rparr>"

definition showSuccess :: "jstring \<Rightarrow> form_page \<Rightarrow> form_page" where
  "showSuccess ticketId p = p\<lparr>ticketIdSpan := ticketId, success_display := lit ''flex''\<rparr>"

definition closeModal :: "form_page \<Rightarrow> form_page" where
  "closeModal p = p\<lparr>success_display := lit ''none''\<rparr>"

definition form_reset :: "form_page \<Rightarrow> form_page" where
  "form_reset p = p\<lparr>form_values := form_defaults p\<rparr>"

text \<open>The \<open>try\<close> block of the handler: step 1, step 2, then the success display.\<close>

definition submit_try ::
  "form_page \<Rightarrow> ticket_data \<Rightarrow> ticket response promise \<Rightarrow> 'w response promise
     \<Rightarrow> form_page \<times> effect list \<times> unit completion" where
  "submit_try p d cr wh =
     (case createTicket d cr of
        (ef1, Suspended) \<Rightarrow> (p, ef1, Suspended)
      | (ef1, Throws e) \<Rightarrow> (p, ef1, Throws e)
      | (ef1, Returns t) \<Rightarrow>
          (case triggerN8nWorkflow t wh of
             (ef2, Suspended) \<Rightarrow> (p, ef1 @ ef2, Suspended)
           | (ef2, Throws e) \<Rightarrow> (p, ef1 @ ef2, Throws e)
           | (ef2, Returns _) \<Rightarrow>
               (form_reset (showSuccess (ticket_id t) p), ef1 @ ef2, Returns ())))"

text \<open>The whole handler: loading state, the \<open>try\<close> block, \<open>catch\<close> and \<open>finally\<close>.\<close>

definition on_submit ::
  "form_page \<Rightarrow> ticket response promise \<Rightarrow> 'w response promise
     \<Rightarrow> form_page \<times> effect list \<times> unit completion" where
  "on_submit p cr wh =
     (case submit_try (setLoading True p) (form_values p) cr wh of
        (p', ef, Suspended) \<Rightarrow> (p', PreventDefault # ef, Suspended)
      | (p', ef, Throws e) \<Rightarrow>
          (setLoading False p',
           PreventDefault # ef @
             [ConsoleError (lit ''Error submitting ticket:'') e,
              Alert (lit ''Failed to submit ticket. Please try again.'')],
           Returns ())
      | (p', ef, Returns _) \<Rightarrow> (setLoading False p', PreventDefault # ef, Returns ()))"

text \<open>A dispatch that failed and settled: the \<open>fetch\<close> rejected (network error, or a
  timeout of the browser's connection), or the endpoint answered outside 200 to 299.\<close>

fun dispatch_failed :: "'w response promise \<Rightarrow> bool" where
  "dispatch_failed Unsettled = False"
| "dispatch_failed (Rejected e) = True"
| "dispatch_failed (Fulfilled r) = (\<not> ok r)"

fun settled :: "'a promise \<Rightarrow> bool" where
  "settled Unsettled = False"
| "settled _ = True"

text \<open>Ticket creation succeeded with ticket \<open>t\<close>.\<close>

definition created :: "ticket response promise \<Rightarrow> ticket \<Rightarrow> bool" where
  "created cr t = (case cr of Fulfilled r \<Rightarrow> ok r \<and> json_body r = Fulfilled t | _ \<Rightarrow> False)"

text \<open>Ticket creation failed: the \<open>fetch\<close> rejected, the response was not \<open>ok\<close>, or its
  body was not JSON.\<close>

fun create_failed :: "ticket response promise \<Rightarrow> bool" where
  "create_failed Unsettled = False"
| "create_failed (Rejected e) = True"
| "create_failed (Fulfilled r) =
     (\<not> ok r \<or> (case json_body r of Rejected e \<Rightarrow> True | _ \<Rightarrow> False))"

text \<open>The probe reports the model as still initialising.\<close>

definition reports_loading :: "health response promise \<Rightarrow> bool" where
  "reports_loading probe =
     (case then_json probe of
        Fulfilled h \<Rightarrow> health_status h = Some (lit ''loading'')
      | _ \<Rightarrow> False)"

text \<open>The probe reports the model as ready.\<close>

definition reports_connected :: "health response promise \<Rightarrow> bool" where
  "reports_connected probe =
     (case then_json probe of
        Fulfilled h \<Rightarrow> health_status h = Some (lit ''connected'')
      | _ \<Rightarrow> False)"

subsection \<open>Sample data\<close>

definition jane_form :: ticket_data where
  "jane_form =
     \<lparr>td_employee_name = Some (lit ''Jane Doe''),
      td_employee_email = Some (lit ''jane@co.com''),
      td_subject = Some (lit ''PTO balance''),
      td_description = Some (lit ''How many days do I have left?'')\<rparr>"

definition empty_form :: ticket_data where
  "empty_form =
     \<lparr>td_employee_name = Some [], td_employee_email = Some [],
      td_subject = Some [], td_description = Some []\<rparr>"

definition jane_ticket :: ticket where
  "jane_ticket =
     \<lparr>ticket_id = lit ''3f2a9c1e-77aa-4c1b-9a52-0d6e5b1c2f10'',
      employee_name = Some (lit ''Jane Doe''),
      employee_email = Some (lit ''jane@co.com''),
      subject = Some (lit ''PTO balance''),
      description = Some (lit ''How many days do I have left?''),
      status = lit ''pending'',
      ai_category = None, ai_confidence = None, ai_response = None,
      created_at = lit ''2024-01-15T10:30:00''\<rparr>"

text \<open>A page whose submit button starts disabled, with the form filled in.\<close>

definition fresh_page :: form_page where
  "fresh_page =
     \<lparr>aiStatus = Some \<lparr>icon_text = [], status_text = lit ''Checking AI...'', class_list = []\<rparr>,
      aiConnected = False,
      submit_disabled = True,
      btn_text = lit ''Submit Ticket'',
      btn_text_display = lit ''inline'',
      btn_loading_display = lit ''none'',
      success_display = lit ''none'',
      ticketIdSpan = [],
      form_values = jane_form,
      form_defaults = empty_form\<rparr>"

definition created_201 :: "ticket response" where
  "created_201 = \<lparr>http_status = 201, json_body = Fulfilled jane_ticket\<rparr>"

definition failed_to_fetch :: js_error where
  "failed_to_fetch = JsError ''TypeError'' (lit ''Failed to fetch'')"

definition loading_200 :: "health response" where
  "loading_200 =
     \<lparr>http_status = 200,
      json_body = Fulfilled \<lparr>health_status = Some (lit ''loading''), reason = None\<rparr>\<rparr>"

section \<open>The dashboard: \<open>frontend/js/dashboard.js\<close>\<close>

text \<open>
  What the script takes from the browser and cannot be computed from the ticket alone:
  the locale's date formats (\<open>new Date(s).toLocaleString()\<close> and
  \<open>toLocaleDateString()\<close>), the text of \<open>Math.round(c * 100)\<close> in double arithmetic, and
  \<open>Array.prototype.sort\<close> with the comparator on \<open>created_at\<close> dates.
\<close>

record platform =
  toLocaleString :: "jstring \<Rightarrow> jstring"
  toLocaleDateString :: "jstring \<Rightarrow> jstring"
  round_percent :: "real \<Rightarrow> jstring"
  sort_by_created :: "ticket list \<Rightarrow> ticket list"

definition apos :: jstring where
  "apos = [0x27]"

text \<open>The three pictographs of the script, by the code units the source file holds.\<close>

definition robot_glyph :: jstring where
  "robot_glyph = [0xF8FF, 0x00FC, 0x00A7, 0x00F1]"

definition check_glyph :: jstring where
  "check_glyph = [0x201A, 0x00FA, 0x00D6]"

definition cross_glyph :: jstring where
  "cross_glyph = [0x201A, 0x00F9, 0x00E5]"

subsection \<open>\<open>escapeHtml\<close>\<close>

text \<open>
  \<open>div.textContent = text; return div.innerHTML\<close>: the browser serialises the text node,
  replacing \<open>&\<close>, \<open><\<close>, \<open>>\<close> and the no-break space U+00A0 by their entities and leaving
  every other code unit as it is.
\<close>

definition escape_unit :: "16 word \<Rightarrow> jstring" where
  "escape_unit c =
     (if c = 0x26 then lit ''&amp;''
      else if c = 0x3C then lit ''&lt;''
      else if c = 0x3E then lit ''&gt;''
      else if c = 0xA0 then lit ''&nbsp;''
      else [c])"

definition escapeHtml :: "jstring option \<Rightarrow> jstring" where
  "escapeHtml text' =
     (case text' of
        None \<Rightarrow> []
      | Some s \<Rightarrow> if s = [] then [] else concat (map escape_unit s))"

subsection \<open>The tickets table\<close>

definition formatDate :: "platform \<Rightarrow> jstring \<Rightarrow> bool \<Rightarrow> jstring" where
  "formatDate pf dateStr full =
     (if full then toLocaleString pf dateStr else toLocaleDateString pf dateStr)"

definition renderConfidence :: "platform \<Rightarrow> real \<Rightarrow> jstring" where
  \<open>renderConfidence pf confidence =
     lit ''\<newline>'' @
     lit ''        <div class="confidence">\<newline>'' @
     lit ''            <div class="confidence-bar">\<newline>'' @
     lit ''                <div class="confidence-fill" style="width: '' @
     round_percent pf confidence @
     lit ''%"></div>\<newline>'' @
     lit ''            </div>\<newline>'' @
     lit ''            <span class="confidence-text">'' @
     round_percent pf confidence @
     lit ''%</span>\<newline>'' @
     lit ''        </div>\<newline>'' @
     lit ''    ''\<close>

text \<open>\<open>ticket.subject || ticket.description?.substring(0, 30) + '...'\<close>: a missing
  description gives the text \<open>undefined...\<close>.\<close>

definition subject_or_description :: "ticket \<Rightarrow> jstring" where
  "subject_or_description t =
     (case subject t of
        Some s \<Rightarrow>
          if s \<noteq> [] then s
          else (case description t of None \<Rightarrow> lit ''undefined'' | Some d \<Rightarrow> take 30 d) @ lit ''...''
      | None \<Rightarrow>
          (case description t of None \<Rightarrow> lit ''undefined'' | Some d \<Rightarrow> take 30 d) @ lit ''...'')"

definition category_cell :: "ticket \<Rightarrow> jstring" where
  \<open>category_cell t =
     (case ai_category t of
        None \<Rightarrow> lit ''-''
      | Some c \<Rightarrow>
          if c = [] then lit ''-''
          else lit ''<span class="category-badge">'' @ c @ lit ''</span>'')\<close>

text \<open>A number is truthy unless it is zero.\<close>

definition confidence_cell :: "platform \<Rightarrow> ticket \<Rightarrow> jstring" where
  "confidence_cell pf t =
     (case ai_confidence t of
        None \<Rightarrow> lit ''-''
      | Some c \<Rightarrow> if c = 0 then lit ''-'' else renderConfidence pf c)"

text \<open>The row of one ticket: the arrow function given to \<open>tickets.map\<close>.\<close>

definition ticket_row :: "platform \<Rightarrow> ticket \<Rightarrow> jstring" where
  \<open>ticket_row pf t =
     lit ''\<newline>'' @
     lit ''        <tr onclick="showTicketDetail('' @ apos @ ticket_id t @ apos @ lit '')">\<newline>'' @
     lit ''            <td><code>'' @ take 8 (ticket_id t) @ lit ''...</code></td>\<newline>'' @
     lit ''            <td>'' @ escapeHtml (employee_name t) @ lit ''</td>\<newline>'' @
     lit ''            <td>'' @ escapeHtml (Some (subject_or_description t)) @ lit ''</td>\<newline>'' @
     lit ''            <td>'' @ category_cell t @ lit ''</td>\<newline>'' @
     lit ''            <td>'' @ confidence_cell pf t @ lit ''</td>\<newline>'' @
     lit ''            <td><span class="badge badge-'' @ status t @ lit ''">'' @ status t @
     lit ''</span></td>\<newline>'' @
     lit ''            <td>'' @ formatDate pf (created_at t) False @ lit ''</td>\<newline>'' @
     lit ''        </tr>\<newline>'' @
     lit ''    ''\<close>

definition empty_table :: jstring where
  \<open>empty_table =
     lit ''\<newline>'' @
     lit ''            <tr>\<newline>'' @
     lit ''                <td colspan="7" class="empty-state">\<newline>'' @
     lit ''                    No tickets yet. <a href="/">Submit your first ticket</a>\<newline>'' @
     lit ''                </td>\<newline>'' @
     lit ''            </tr>\<newline>'' @
     lit ''        ''\<close>

text \<open>The new \<open>innerHTML\<close> of the table body; \<open>None\<close> is a \<open>null\<close> list.\<close>

definition table_html :: "platform \<Rightarrow> ticket list option \<Rightarrow> jstring" where
  "table_html pf tickets =
     (case tickets of
        None \<Rightarrow> empty_table
      | Some ts \<Rightarrow>
          if length ts = 0 then empty_table
          else concat (map (ticket_row pf) (sort_by_created pf ts)))"

subsection \<open>The ticket detail\<close>

definition confidence_note :: "platform \<Rightarrow> ticket \<Rightarrow> jstring" where
  "confidence_note pf t =
     (case ai_confidence t of
        None \<Rightarrow> []
      | Some x \<Rightarrow> if x = 0 then [] else lit ''('' @ round_percent pf x @ lit ''% confidence)'')"

definition classification_block :: "platform \<Rightarrow> ticket \<Rightarrow> jstring" where
  \<open>classification_block pf t =
     (case ai_category t of
        None \<Rightarrow> []
      | Some c \<Rightarrow>
          if c = [] then []
          else
            lit ''\<newline>'' @
            lit ''                <div class="ticket-detail">\<newline>'' @
            lit ''                    <div class="label">AI Classification</div>\<newline>'' @
            lit ''                    <div class="value">\<newline>'' @
            lit ''                        <span class="category-badge">'' @ c @ lit ''</span>\<newline>'' @
            lit ''                        '' @ confidence_note pf t @ lit ''\<newline>'' @
            lit ''                    </div>\<newline>'' @
            lit ''                </div>\<newline>'' @
            lit ''            '')\<close>

definition response_block :: "ticket \<Rightarrow> jstring" where
  \<open>response_block t =
     (if truthy (ai_response t) then
        lit ''\<newline>'' @
        lit ''                <div class="ai-response">\<newline>'' @
        lit ''                    <h4>'' @ robot_glyph @
        lit '' AI Suggested Response</h4>\<newline>'' @
        lit ''                    <p>'' @ escapeHtml (ai_response t) @ lit ''</p>\<newline>'' @
        lit ''                </div>\<newline>'' @
        lit ''            ''
      else [])\<close>

definition resolve_block :: "ticket \<Rightarrow> jstring" where
  \<open>resolve_block t =
     (if status t \<noteq> lit ''resolved'' then
        lit ''\<newline>'' @
        lit ''                <div class="modal-actions" style="margin-top: 24px; text-align: right;">\<newline>'' @
        lit ''                    <button class="btn btn-primary" onclick="resolveTicket('' @
        apos @ ticket_id t @ apos @ lit '')">\<newline>'' @
        lit ''                        '' @ check_glyph @ lit '' Resolve Ticket\<newline>'' @
        lit ''                    </button>\<newline>'' @
        lit ''                </div>\<newline>'' @
        lit ''            ''
      else [])\<close>

text \<open>The new \<open>innerHTML\<close> of the detail pane.\<close>

definition detail_html :: "platform \<Rightarrow> ticket \<Rightarrow> jstring" where
  \<open>detail_html pf t =
     lit ''\<newline>'' @
     lit ''            <div class="ticket-detail">\<newline>'' @
     lit ''                <div class="label">Ticket ID</div>\<newline>'' @
     lit ''                <div class="value"><code>'' @ ticket_id t @ lit ''</code></div>\<newline>'' @
     lit ''            </div>\<newline>'' @
     lit ''            <div class="ticket-detail">\<newline>'' @
     lit ''                <div class="label">Employee</div>\<newline>'' @
     lit ''                <div class="value">'' @ escapeHtml (employee_name t) @
     lit '' ('' @ escapeHtml (employee_email t) @ lit '')</div>\<newline>'' @
     lit ''            </div>\<newline>'' @
     lit ''            <div class="ticket-detail">\<newline>'' @
     lit ''                <div class="label">Subject</div>\<newline>'' @
     lit ''                <div class="value">'' @ escapeHtml (subject t) @ lit ''</div>\<newline>'' @
     lit ''            </div>\<newline>'' @
     lit ''            <div class="ticket-detail">\<newline>'' @
     lit ''                <div class="label">Description</div>\<newline>'' @
     lit ''                <div class="value">'' @ escapeHtml (description t) @ lit ''</div>\<newline>'' @
     lit ''            </div>\<newline>'' @
     lit ''            <div class="ticket-detail">\<newline>'' @
     lit ''                <div class="label">Status</div>\<newline>'' @
     lit ''                <div class="value"><span class="badge badge-'' @ status t @ lit ''">'' @
     status t @ lit ''</span></div>\<newline>'' @
     lit ''            </div>\<newline>'' @
     lit ''            '' @ classification_block pf t @ lit ''\<newline>'' @
     lit ''            '' @ response_block t @ lit ''\<newline>'' @
     lit ''            <div class="ticket-detail">\<newline>'' @
     lit ''                <div class="label">Created</div>\<newline>'' @
     lit ''                <div class="value">'' @ formatDate pf (created_at t) True @
     lit ''</div>\<newline>'' @
     lit ''            </div>\<newline>'' @
     lit ''            '' @ resolve_block t @ lit ''\<newline>'' @
     lit ''        ''\<close>

subsection \<open>Page state, refresh and the detail modal\<close>

text \<open>The body of \<open>GET /api/analytics\<close>; a count object lists its keys in order.\<close>

record analytics =
  total_tickets :: "nat option"
  status_counts :: "(jstring \<times> nat) list option"
  category_counts :: "(jstring \<times> nat) list option"

text \<open>
  The dashboard page. The four counters hold the numbers shown; a chart is \<open>None\<close> until
  it is created and then holds the count object it draws (labels, values and colours are
  computed from it by the charting library).
\<close>

record dash_page =
  totalTickets :: nat
  pendingTickets :: nat
  classifiedTickets :: nat
  resolvedTickets :: nat
  categoryChart :: "(jstring \<times> nat) list option"
  statusChart :: "(jstring \<times> nat) list option"
  ticketsTableBody :: jstring
  ticketDetails :: jstring
  ticketModal_display :: jstring

text \<open>\<open>analytics.status_counts?.key || 0\<close>\<close>

definition count_or_zero :: "(jstring \<times> nat) list option \<Rightarrow> string \<Rightarrow> nat" where
  "count_or_zero counts k =
     (case counts of
        None \<Rightarrow> 0
      | Some m \<Rightarrow> (case map_of m (lit k) of None \<Rightarrow> 0 | Some n \<Rightarrow> n))"

definition updateStats :: "analytics \<Rightarrow> dash_page \<Rightarrow> dash_page" where
  "updateStats a p =
     p\<lparr>totalTickets := (case total_tickets a of None \<Rightarrow> 0 | Some n \<Rightarrow> n),
       pendingTickets := count_or_zero (status_counts a) ''pending'',
       classifiedTickets := count_or_zero (status_counts a) ''classified'',
       resolvedTickets := count_or_zero (status_counts a) ''resolved''\<rparr>"

definition updateCharts :: "analytics \<Rightarrow> dash_page \<Rightarrow> dash_page" where
  "updateCharts a p =
     p\<lparr>categoryChart := Some (case category_counts a of None \<Rightarrow> [] | Some m \<Rightarrow> m),
       statusChart := Some (case status_counts a of None \<Rightarrow> [] | Some m \<Rightarrow> m)\<rparr>"

definition updateTable :: "platform \<Rightarrow> ticket list option \<Rightarrow> dash_page \<Rightarrow> dash_page" where
  "updateTable pf tickets p = p\<lparr>ticketsTableBody := table_html pf tickets\<rparr>"

definition get_request :: "jstring \<Rightarrow> request" where
  "get_request u = \<lparr>url = u, http_method = ''GET'', headers = [], req_body = NoBody\<rparr>"

text \<open>\<open>fetchTickets\<close>, \<open>fetchAnalytics\<close> and the first lines of \<open>showTicketDetail\<close>: the
  \<open>fetch\<close>, the test of \<open>response.ok\<close> with its error message, and \<open>response.json()\<close>.\<close>

fun fetch_json :: "string \<Rightarrow> 'b response promise \<Rightarrow> 'b promise" where
  "fetch_json msg Unsettled = Unsettled"
| "fetch_json msg (Rejected e) = Rejected e"
| "fetch_json msg (Fulfilled r) =
     (if \<not> ok r then Rejected (JsError ''Error'' (lit msg)) else json_body r)"

text \<open>\<open>Promise.all\<close> of two promises; when both reject, \<open>second_first\<close> says that the
  second rejected before the first.\<close>

fun promise_all :: "bool \<Rightarrow> 'a promise \<Rightarrow> 'b promise \<Rightarrow> ('a \<times> 'b) promise" where
  "promise_all second_first (Rejected e) (Rejected e') =
     Rejected (if second_first then e' else e)"
| "promise_all second_first (Rejected e) _ = Rejected e"
| "promise_all second_first _ (Rejected e') = Rejected e'"
| "promise_all second_first (Fulfilled a) (Fulfilled b) = Fulfilled (a, b)"
| "promise_all second_first _ _ = Unsettled"

definition refresh_requests :: "effect list" where
  "refresh_requests =
     [Fetch (get_request (API_BASE @ lit ''/api/tickets'')),
      Fetch (get_request (API_BASE @ lit ''/api/analytics''))]"

text \<open>\<open>refreshData\<close>: both requests are sent at once; the page is updated when both
  answers are there, and any failure is logged and swallowed.\<close>

definition refreshData ::
  "platform \<Rightarrow> dash_page \<Rightarrow> bool \<Rightarrow> ticket list option response promise
     \<Rightarrow> analytics response promise \<Rightarrow> dash_page \<times> effect list \<times> unit completion" where
  "refreshData pf p second_first tk an =
     (case promise_all second_first
             (fetch_json ''Failed to fetch tickets'' tk)
             (fetch_json ''Failed to fetch analytics'' an) of
        Unsettled \<Rightarrow> (p, refresh_requests, Suspended)
      | Rejected e \<Rightarrow>
          (p, refresh_requests @ [ConsoleError (lit ''Error fetching dashboard data:'') e],
           Returns ())
      | Fulfilled (tickets, a) \<Rightarrow>
          (updateTable pf tickets (updateCharts a (updateStats a p)), refresh_requests,
           Returns ()))"

text \<open>\<open>showTicketDetail\<close>\<close>

definition showTicketDetail ::
  "platform \<Rightarrow> dash_page \<Rightarrow> jstring \<Rightarrow> ticket response promise
     \<Rightarrow> dash_page \<times> effect list \<times> unit completion" where
  "showTicketDetail pf p ticketId tr =
     (case fetch_json ''Failed to fetch ticket'' tr of
        Unsettled \<Rightarrow>
          (p, [Fetch (get_request (API_BASE @ lit ''/api/tickets/'' @ ticketId))], Suspended)
      | Rejected e \<Rightarrow>
          (p, [Fetch (get_request (API_BASE @ lit ''/api/tickets/'' @ ticketId)),
               ConsoleError (lit ''Error fetching ticket details:'') e],
           Returns ())
      | Fulfilled t \<Rightarrow>
          (p\<lparr>ticketDetails := detail_html pf t, ticketModal_display := lit ''flex''\<rparr>,
           [Fetch (get_request (API_BASE @ lit ''/api/tickets/'' @ ticketId))],
           Returns ()))"

definition closeTicketModal :: "dash_page \<Rightarrow> dash_page" where
  "closeTicketModal p = p\<lparr>ticketModal_display := lit ''none''\<rparr>"

subsection \<open>\<open>resolveTicket\<close>\<close>

definition resolve_request :: "jstring \<Rightarrow> request" where
  "resolve_request ticketId =
     \<lparr>url = API_BASE @ lit ''/api/tickets/'' @ ticketId @ lit ''/resolve'',
      http_method = ''POST'',
      headers = json_headers,
      req_body = ObjectJson [(''action'', lit ''resolved''), (''user'', lit ''Dashboard User'')]\<rparr>"

definition confirm_question :: jstring where
  "confirm_question = lit ''Are you sure you want to mark this ticket as resolved?''"

definition resolved_message :: jstring where
  "resolved_message = check_glyph @ lit '' Ticket resolved successfully!''"

definition resolve_failed_message :: jstring where
  "resolve_failed_message =
     cross_glyph @ lit '' Failed to resolve ticket. Please try again.''"

text \<open>The \<open>catch\<close> block of \<open>resolveTicket\<close>.\<close>

definition resolve_catch :: "js_error \<Rightarrow> effect list" where
  "resolve_catch e = [ConsoleError (lit ''Error resolving ticket:'') e, Alert resolve_failed_message]"

text \<open>
  \<open>resolveTicket\<close>: \<open>answer\<close> is what the user chose in the \<open>confirm\<close> dialogue, \<open>rr\<close> what
  the resolve request does, and the remaining arguments are those of the \<open>refreshData\<close>
  call after a successful resolve.
\<close>

definition resolveTicket ::
  "platform \<Rightarrow> dash_page \<Rightarrow> jstring \<Rightarrow> bool \<Rightarrow> 'r response promise \<Rightarrow> bool
     \<Rightarrow> ticket list option response promise \<Rightarrow> analytics response promise
     \<Rightarrow> dash_page \<times> effect list \<times> unit completion" where
  "resolveTicket pf p ticketId answer rr second_first tk an =
     (if \<not> answer then (p, [Confirm confirm_question], Returns ())
      else
        (case rr of
           Unsettled \<Rightarrow>
             (p, [Confirm confirm_question, Fetch (resolve_request ticketId)], Suspended)
         | Rejected e \<Rightarrow>
             (p, [Confirm confirm_question, Fetch (resolve_request ticketId)] @ resolve_catch e,
              Returns ())
         | Fulfilled r \<Rightarrow>
             if \<not> ok r then
               (p, [Confirm confirm_question, Fetch (resolve_request ticketId)]
                     @ resolve_catch (JsError ''Error'' (lit ''Failed to resolve ticket'')),
                Returns ())
             else
               (case refreshData pf (closeTicketModal p) second_first tk an of
                  (p', ef, Suspended) \<Rightarrow>
                    (p', [Confirm confirm_question, Fetch (resolve_request ticketId)] @ ef,
                     Suspended)
                | (p', ef, Throws e) \<Rightarrow>
                    (p', [Confirm confirm_question, Fetch (resolve_request ticketId)] @ ef
                           @ resolve_catch e,
                     Returns ())
                | (p', ef, Returns _) \<Rightarrow>
                    (p', [Confirm confirm_question, Fetch (resolve_request ticketId)] @ ef
                           @ [Alert resolved_message],
                     Returns ()))))"

text \<open>The resolve request got an answer outside 200 to 299.\<close>

definition non_2xx :: "'r response promise \<Rightarrow> bool" where
  "non_2xx rr = (case rr of Fulfilled r \<Rightarrow> \<not> ok r | _ \<Rightarrow> False)"

text \<open>The code units \<open><\<close> and \<open>>\<close> of a text, in order: its markup skeleton.\<close>

definition markup :: "jstring \<Rightarrow> jstring" where
  "markup s = filter (\<lambda>c. c = 0x3C \<or> c = 0x3E) s"




subsection \<open>Sample data of the dashboard\<close>

definition sample_platform :: platform where
  "sample_platform =
     \<lparr>toLocaleString = (\<lambda>s. s), toLocaleDateString = take 10,
      round_percent = (\<lambda>c. lit ''92''), sort_by_created = rev\<rparr>"


definition empty_dash :: dash_page where
  "empty_dash =
     \<lparr>totalTickets = 0, pendingTickets = 0, classifiedTickets = 0, resolvedTickets = 0,
      categoryChart = None, statusChart = None,
      ticketsTableBody = [], ticketDetails = [], ticketModal_display = lit ''flex''\<rparr>"

section \<open>The ticket core: store, orchestrator, resolve action, aggregator\<close>

text \<open>
  The backend (\<open>backend/server.py\<close>) is not among the sources. This section follows the
  specification's sections 3 and 4.
\<close>

text \<open>Modelled from the spec: the \<open>status\<close> values of a ticket
  (\<open>pending | classified | resolved\<close>); the backend's ticket type is missing.\<close>

datatype ticket_status = Pending | Classified | Resolved

text \<open>Modelled from the spec: the fixed set of category labels of the orchestrator.\<close>

datatype category =
  Benefits | PTO | Payroll | Policy | Onboarding | Offboarding | Complaint | General

text \<open>Modelled from the spec: the ticket record of section 3, with the identifier drawn
  from a counter and timestamps as numbers; the backend's record is missing.\<close>

record stored_ticket =
  st_id :: nat
  st_employee_name :: string
  st_employee_email :: string
  st_subject :: string
  st_description :: string
  st_status :: ticket_status
  st_ai_category :: "category option"
  st_ai_confidence :: "rat option"
  st_ai_response :: "string option"
  st_created_at :: nat
  st_resolved_at :: "nat option"
  st_resolved_by :: "string option"

text \<open>Modelled from the spec: the body of a submission (\<open>POST /api/tickets\<close>).\<close>

record ticket_input =
  in_employee_name :: string
  in_employee_email :: string
  in_subject :: string
  in_description :: string

text \<open>Modelled from the spec: the error taxonomy of section 7, as far as the store and
  the resolve action raise it.\<close>

datatype core_error = ValidationError | NotFound | InvalidTransition

text \<open>Modelled from the spec: the ticket store, the persisted tickets in order and the
  source of fresh identifiers; the backend's store is missing.\<close>

record store =
  tickets :: "stored_ticket list"
  next_id :: nat

definition empty_store :: store where
  "empty_store = \<lparr>tickets = [], next_id = 0\<rparr>"

text \<open>Modelled from the spec: a required field is rejected when it is empty or blank.\<close>

definition blank :: "string \<Rightarrow> bool" where
  "blank s = list_all (\<lambda>c. c = CHR '' '' \<or> c = CHR 0x09 \<or> c = CHR 0x0A \<or> c = CHR 0x0D) s"

text \<open>Modelled from the spec: \<open>create(ticketInput)\<close> of section 4.1, which fails with
  \<open>ValidationError\<close> on a blank required field and otherwise generates the id and
  \<open>created_at\<close>, persists and returns the record, with status \<open>pending\<close> and no
  classification fields.\<close>

definition create :: "store \<Rightarrow> ticket_input \<Rightarrow> nat \<Rightarrow> core_error + store \<times> stored_ticket" where
  "create s i now =
     (if blank (in_employee_name i) \<or> blank (in_employee_email i)
         \<or> blank (in_subject i) \<or> blank (in_description i)
      then Inl ValidationError
      else
        (let t = \<lparr>st_id = next_id s,
                  st_employee_name = in_employee_name i,
                  st_employee_email = in_employee_email i,
                  st_subject = in_subject i,
                  st_description = in_description i,
                  st_status = Pending,
                  st_ai_category = None, st_ai_confidence = None, st_ai_response = None,
                  st_created_at = now,
                  st_resolved_at = None, st_resolved_by = None\<rparr>
         in Inr (\<lparr>tickets = tickets s @ [t], next_id = Suc (next_id s)\<rparr>, t)))"

text \<open>Modelled from the spec: \<open>get(id)\<close> of section 4.1, \<open>NotFound\<close> if absent.\<close>

definition get :: "store \<Rightarrow> nat \<Rightarrow> core_error + stored_ticket" where
  "get s i =
     (case find (\<lambda>t. st_id t = i) (tickets s) of
        None \<Rightarrow> Inl NotFound
      | Some t \<Rightarrow> Inr t)"

text \<open>Modelled from the spec: \<open>update(id, partialFields)\<close> of section 4.1; the partial
  fields are given as a function on the record, and the call fails with \<open>NotFound\<close> if the
  id is absent.\<close>

definition update ::
  "store \<Rightarrow> nat \<Rightarrow> (stored_ticket \<Rightarrow> stored_ticket) \<Rightarrow> core_error + store \<times> stored_ticket" where
  "update s i f =
     (case get s i of
        Inl e \<Rightarrow> Inl e
      | Inr t \<Rightarrow>
          Inr (s\<lparr>tickets := map (\<lambda>u. if st_id u = i then f u else u) (tickets s)\<rparr>, f t))"

text \<open>Modelled from the spec: what the external classification endpoint answers: a
  timeout, a service error, a malformed response, or a score for each label.\<close>

datatype classifier_reply =
  Timeout | ServiceError | Malformed | Scores "(category \<times> rat) list"

text \<open>Modelled from the spec: the result of \<open>classify\<close>,
  \<open>ClassificationResult | ClassificationUnavailable\<close>.\<close>

datatype classification = ClassificationResult category rat | ClassificationUnavailable

text \<open>Modelled from the spec: the highest-scoring label and its score; the first one
  among equal scores.\<close>

fun best_label :: "(category \<times> rat) list \<Rightarrow> (category \<times> rat) option" where
  "best_label [] = None"
| "best_label ((c, x) # rest) =
     (case best_label rest of
        None \<Rightarrow> Some (c, x)
      | Some (c', x') \<Rightarrow> if x' > x then Some (c', x') else Some (c, x))"

text \<open>Modelled from the spec: how the orchestrator reads a reply (section 4.3). A
  timeout, a service error and a malformed response (a reply without scores is one) give
  no classification; a confidence outside \<open>[0,1]\<close> is a \<open>ValidationError\<close> on the response;
  otherwise the highest-scoring label and its score are the classification.\<close>

definition read_reply :: "classifier_reply \<Rightarrow> core_error + (category \<times> rat) option" where
  "read_reply reply =
     (case reply of
        Timeout \<Rightarrow> Inr None
      | ServiceError \<Rightarrow> Inr None
      | Malformed \<Rightarrow> Inr None
      | Scores xs \<Rightarrow>
          (case best_label xs of
             None \<Rightarrow> Inr None
           | Some (c, x) \<Rightarrow> if 0 \<le> x \<and> x \<le> 1 then Inr (Some (c, x)) else Inl ValidationError))"

text \<open>Modelled from the spec: the failures of a classification attempt that section 4.3
  lists: timeout, service error, malformed response.\<close>

fun failed_reply :: "classifier_reply \<Rightarrow> bool" where
  "failed_reply Timeout = True"
| "failed_reply ServiceError = True"
| "failed_reply Malformed = True"
| "failed_reply (Scores xs) = False"

text \<open>Modelled from the spec: the fields the orchestrator writes: category, confidence,
  the templated reply, and status \<open>classified\<close> if it was \<open>pending\<close>.\<close>

definition classified_fields ::
  "(category \<Rightarrow> string) \<Rightarrow> category \<Rightarrow> rat \<Rightarrow> stored_ticket \<Rightarrow> stored_ticket" where
  "classified_fields template c x t =
     t\<lparr>st_ai_category := Some c, st_ai_confidence := Some x,
       st_ai_response := Some (template c),
       st_status := (if st_status t = Pending then Classified else st_status t)\<rparr>"

text \<open>Modelled from the spec: \<open>classify\<close> of section 4.3. On success the result is
  written back through \<open>update\<close>; on a failure of the classification the store is left
  as it is and \<open>ClassificationUnavailable\<close> is returned as a value; a
  \<open>ValidationError\<close> on the response goes to the caller (section 7).\<close>

definition classify ::
  "(category \<Rightarrow> string) \<Rightarrow> store \<Rightarrow> nat \<Rightarrow> classifier_reply
     \<Rightarrow> core_error + store \<times> classification" where
  "classify template s i reply =
     (case read_reply reply of
        Inl e \<Rightarrow> Inl e
      | Inr None \<Rightarrow> Inr (s, ClassificationUnavailable)
      | Inr (Some (c, x)) \<Rightarrow>
          (case update s i (classified_fields template c x) of
             Inl e \<Rightarrow> Inl e
           | Inr (s', t) \<Rightarrow> Inr (s', ClassificationResult c x)))"

text \<open>Modelled from the spec: \<open>resolve(id, actor)\<close> of section 4.6, the reference
  behaviour that rejects a repeated resolve with \<open>InvalidTransition\<close>.\<close>

definition resolve :: "store \<Rightarrow> nat \<Rightarrow> string \<Rightarrow> nat \<Rightarrow> core_error + store \<times> stored_ticket" where
  "resolve s i actor now =
     (case get s i of
        Inl e \<Rightarrow> Inl e
      | Inr t \<Rightarrow>
          if st_status t = Resolved then Inl InvalidTransition
          else update s i (\<lambda>u. u\<lparr>st_status := Resolved, st_resolved_at := Some now,
                                  st_resolved_by := Some actor\<rparr>))"

text \<open>Modelled from the spec: the operations that reach the store (section 3,
  lifecycle): submission, the orchestrator's classification and the resolve action.\<close>

datatype operation =
    Create ticket_input nat
  | Classify nat classifier_reply
  | Resolve nat string nat

text \<open>Modelled from the spec: one operation on the store; a failed operation leaves the
  store as it is.\<close>

definition apply_operation :: "(category \<Rightarrow> string) \<Rightarrow> store \<Rightarrow> operation \<Rightarrow> store" where
  "apply_operation template s op =
     (case op of
        Create i now \<Rightarrow> (case create s i now of Inl e \<Rightarrow> s | Inr (s', t) \<Rightarrow> s')
      | Classify i reply \<Rightarrow>
          (case classify template s i reply of Inl e \<Rightarrow> s | Inr (s', r) \<Rightarrow> s')
      | Resolve i actor now \<Rightarrow>
          (case resolve s i actor now of Inl e \<Rightarrow> s | Inr (s', t) \<Rightarrow> s'))"

text \<open>Modelled from the spec: the store after a sequence of operations.\<close>

fun run :: "(category \<Rightarrow> string) \<Rightarrow> store \<Rightarrow> operation list \<Rightarrow> store" where
  "run template s [] = s"
| "run template s (op # ops) = run template (apply_operation template s op) ops"

text \<open>Modelled from the spec: the position of a status on the way
  \<open>pending \<rightarrow> classified \<rightarrow> resolved\<close>.\<close>

fun rank :: "ticket_status \<Rightarrow> nat" where
  "rank Pending = 0"
| "rank Classified = 1"
| "rank Resolved = 2"

text \<open>Modelled from the spec: the analytics snapshot of section 3; a count mapping lists
  its keys in the order of their first ticket, and the key \<open>None\<close> of \<open>category_counts\<close> is
  the bucket \<open>Unclassified\<close>.\<close>

record snapshot =
  snap_total_tickets :: nat
  snap_status_counts :: "(ticket_status \<times> nat) list"
  snap_category_counts :: "(category option \<times> nat) list"

text \<open>Modelled from the spec: \<open>counts[k] += 1\<close>, starting a missing key at one.\<close>

fun increment :: "'k \<Rightarrow> ('k \<times> nat) list \<Rightarrow> ('k \<times> nat) list" where
  "increment k [] = [(k, 1)]"
| "increment k ((k', n) # rest) =
     (if k = k' then (k', Suc n) # rest else (k', n) # increment k rest)"

text \<open>Modelled from the spec: the single pass of \<open>summarize\<close> (section 4.5) over the
  tickets; \<open>unclassified\<close> says whether the consumer asked for the \<open>Unclassified\<close> bucket.\<close>

fun tally :: "bool \<Rightarrow> stored_ticket list \<Rightarrow> snapshot \<Rightarrow> snapshot" where
  "tally unclassified [] snap = snap"
| "tally unclassified (t # ts) snap =
     tally unclassified ts
       (snap\<lparr>snap_status_counts := increment (st_status t) (snap_status_counts snap),
             snap_category_counts :=
               (case st_ai_category t of
                  Some c \<Rightarrow> increment (Some c) (snap_category_counts snap)
                | None \<Rightarrow>
                    if unclassified then increment None (snap_category_counts snap)
                    else snap_category_counts snap)\<rparr>)"

text \<open>Modelled from the spec: \<open>summarize(tickets)\<close> of section 4.5, with
  \<open>total_tickets = len(tickets)\<close>.\<close>

definition summarize :: "bool \<Rightarrow> stored_ticket list \<Rightarrow> snapshot" where
  "summarize unclassified ts =
     tally unclassified ts
       \<lparr>snap_total_tickets = length ts, snap_status_counts = [], snap_category_counts = []\<rparr>"

text \<open>Modelled from the spec: \<open>sum(status_counts.values())\<close>.\<close>

definition sum_values :: "('k \<times> nat) list \<Rightarrow> nat" where
  "sum_values m = sum_list (map snd m)"

text \<open>Modelled from the spec: the invariant behind "ticket id is unique across the
  store", for a store that draws identifiers from its counter: every stored id is below
  the counter.\<close>

definition ids_below :: "store \<Rightarrow> bool" where
  "ids_below s = (\<forall>t \<in> set (tickets s). st_id t < next_id s)"

subsection \<open>Sample data of the core\<close>

definition jane_input :: ticket_input where
  "jane_input =
     \<lparr>in_employee_name = ''Jane Doe'', in_employee_email = ''jane@co.com'',
      in_subject = ''PTO balance'', in_description = ''How many days do I have left?''\<rparr>"

definition reply_template :: "category \<Rightarrow> string" where
  "reply_template c = ''Thank you for your request.''"

text \<open>Modelled from the spec: the store after Jane's submission at time 100, and her
  ticket as stored.\<close>

definition jane_pending :: stored_ticket where
  "jane_pending =
     \<lparr>st_id = 0, st_employee_name = ''Jane Doe'', st_employee_email = ''jane@co.com'',
      st_subject = ''PTO balance'', st_description = ''How many days do I have left?'',
      st_status = Pending, st_ai_category = None, st_ai_confidence = None,
      st_ai_response = None, st_created_at = 100, st_resolved_at = None,
      st_resolved_by = None\<rparr>"

definition jane_store :: store where
  "jane_store = \<lparr>tickets = [jane_pending], next_id = 1\<rparr>"

definition pto_reply :: classifier_reply where
  "pto_reply = Scores [(Benefits, 5 / 100), (PTO, 92 / 100), (Payroll, 3 / 100)]"

section \<open>Properties of the submission form\<close>

lemma url_create_not_webhook: "url (create_request d) \<noteq> N8N_WEBHOOK_URL"
  by (simp add: create_request_def API_BASE_def N8N_WEBHOOK_URL_def lit_def)

lemma createTicket_fails:
  "create_failed cr \<Longrightarrow> \<exists>e. createTicket d cr = ([Fetch (create_request d)], Throws e)"
  by (cases cr) (auto simp: createTicket_def split: promise.splits)

lemma createTicket_created:
  "created cr t \<Longrightarrow> createTicket d cr = ([Fetch (create_request d)], Returns t)"
  by (cases cr) (auto simp: createTicket_def created_def)

lemma createTicket_Returns:
  "snd (createTicket d cr) = Returns t \<Longrightarrow> created cr t"
  by (cases cr) (auto simp: createTicket_def created_def split: if_splits promise.splits)

lemma trigger_settled:
  "settled wh \<Longrightarrow>
     \<exists>ef v. triggerN8nWorkflow t wh = (Fetch (webhook_request t) # ef, Returns v)
           \<and> requests ef = [] \<and> alerts ef = []"
  by (cases wh) (auto simp: triggerN8nWorkflow_def)

lemma dispatch_failed_settled: "dispatch_failed wh \<Longrightarrow> settled wh"
  by (cases wh) auto

lemma on_submit_created_settled:
  assumes "created cr t" "settled wh"
  shows "\<exists>ef. on_submit p cr wh =
     (setLoading False (form_reset (showSuccess (ticket_id t) (setLoading True p))),
      PreventDefault # Fetch (create_request (form_values p)) # Fetch (webhook_request t) # ef,
      Returns ()) \<and> requests ef = [] \<and> alerts ef = []"
proof -
  from trigger_settled [OF assms(2), of t] obtain ef v where
    tr: "triggerN8nWorkflow t wh = (Fetch (webhook_request t) # ef, Returns v)"
    and ef: "requests ef = []" "alerts ef = []" by blast
  show ?thesis
    by (simp add: on_submit_def submit_try_def createTicket_created [OF assms(1)] tr ef)
qed

lemma on_submit_not_created:
  assumes "\<forall>t. \<not> created cr t"
  shows "on_submit p cr wh = on_submit p cr wh'"
proof -
  have "\<And>t. snd (createTicket (form_values p) cr) \<noteq> Returns t"
    using assms createTicket_Returns by blast
  then show ?thesis
    by (cases "createTicket (form_values p) cr"; cases "snd (createTicket (form_values p) cr)")
       (auto simp: on_submit_def submit_try_def)
qed

lemma created_201_created: "created (Fulfilled created_201) jane_ticket"
  by (simp add: created_def created_201_def ok_def)

text \<open>
  C9: the webhook is dispatched only after the ticket was created. When \<open>createTicket\<close>
  fails (rejected \<open>fetch\<close>, response not \<open>ok\<close>, body not JSON), the \<open>try\<close> block of the
  submit handler throws right after the creation request, before \<open>triggerN8nWorkflow\<close>
  is called: the only request of the whole handler run is the creation request, and none
  goes to the webhook URL.
\<close>

theorem submit_no_dispatch_without_ticket:
  "create_failed cr \<Longrightarrow>
     (\<exists>e. submit_try (setLoading True p) (form_values p) cr wh
            = (setLoading True p, [Fetch (create_request (form_values p))], Throws e))
   \<and> requests (fst (snd (on_submit p cr wh))) = [create_request (form_values p)]
   \<and> (\<forall>r \<in> set (requests (fst (snd (on_submit p cr wh)))). url r \<noteq> N8N_WEBHOOK_URL)"
proof -
  assume f: "create_failed cr"
  from createTicket_fails [OF f, of "form_values p"] obtain e where
    ct: "createTicket (form_values p) cr = ([Fetch (create_request (form_values p))], Throws e)"
    by blast
  have st: "submit_try (setLoading True p) (form_values p) cr wh
            = (setLoading True p, [Fetch (create_request (form_values p))], Throws e)"
    by (simp add: submit_try_def ct)
  have rq: "requests (fst (snd (on_submit p cr wh))) = [create_request (form_values p)]"
    by (simp add: on_submit_def st)
  show ?thesis using st rq url_create_not_webhook by auto
qed

theorem submit_no_dispatch_without_ticket_witness:
  "create_failed (Fulfilled \<lparr>http_status = 500, json_body = Rejected failed_to_fetch\<rparr>)
   \<and> requests (fst (snd (on_submit fresh_page
        (Fulfilled \<lparr>http_status = 500, json_body = Rejected failed_to_fetch\<rparr>)
        (Fulfilled \<lparr>http_status = 200, json_body = Fulfilled ()\<rparr>))))
     = [create_request jane_form]"
proof -
  have h: "create_failed (Fulfilled \<lparr>http_status = 500, json_body = Rejected failed_to_fetch\<rparr>)"
    by (simp add: ok_def)
  show ?thesis
    using h submit_no_dispatch_without_ticket [OF h, of fresh_page
        "Fulfilled \<lparr>http_status = 200, json_body = Fulfilled ()\<rparr>"]
    by (simp add: fresh_page_def)
qed

lemma trigger_returns:
  "settled wh \<Longrightarrow> \<exists>v. snd (triggerN8nWorkflow t wh) = Returns v"
  using trigger_settled [of wh t] by auto

lemma lit_connected_loading:
  "lit ''connected'' \<noteq> lit ''loading''" "lit ''loading'' \<noteq> lit ''connected''"
  by (simp_all add: lit_def)

text \<open>
  C1: a failed webhook dispatch (rejected \<open>fetch\<close>, or an answer outside 200 to 299) is
  swallowed by \<open>triggerN8nWorkflow\<close>: the function returns and does not throw. The
  submission ends as it does for any other settled dispatch, a successful one included:
  same page, same completion, same alerts and the same requests, so nothing more is sent
  after the failure. After a created ticket that is the success display for the ticket's
  id, no alert, and just the two requests of creation and dispatch.
\<close>

theorem dispatch_failure_is_swallowed:
  "dispatch_failed wh \<Longrightarrow>
     (\<exists>v. snd (triggerN8nWorkflow t wh) = Returns v)
   \<and> (settled wh' \<longrightarrow>
         fst (on_submit p cr wh) = fst (on_submit p cr wh')
       \<and> snd (snd (on_submit p cr wh)) = snd (snd (on_submit p cr wh'))
       \<and> alerts (fst (snd (on_submit p cr wh))) = alerts (fst (snd (on_submit p cr wh')))
       \<and> requests (fst (snd (on_submit p cr wh))) = requests (fst (snd (on_submit p cr wh'))))
   \<and> (created cr u \<longrightarrow>
         snd (snd (on_submit p cr wh)) = Returns ()
       \<and> success_display (fst (on_submit p cr wh)) = lit ''flex''
       \<and> ticketIdSpan (fst (on_submit p cr wh)) = ticket_id u
       \<and> alerts (fst (snd (on_submit p cr wh))) = []
       \<and> requests (fst (snd (on_submit p cr wh)))
           = [create_request (form_values p), webhook_request u])"
proof -
  assume f: "dispatch_failed wh"
  then have s: "settled wh" by (rule dispatch_failed_settled)
  have a: "\<exists>v. snd (triggerN8nWorkflow t wh) = Returns v"
    by (rule trigger_returns [OF s])
  have b: "fst (on_submit p cr wh) = fst (on_submit p cr wh')
       \<and> snd (snd (on_submit p cr wh)) = snd (snd (on_submit p cr wh'))
       \<and> alerts (fst (snd (on_submit p cr wh))) = alerts (fst (snd (on_submit p cr wh')))
       \<and> requests (fst (snd (on_submit p cr wh))) = requests (fst (snd (on_submit p cr wh')))"
    if s': "settled wh'"
  proof (cases "\<exists>t. created cr t")
    case True
    then obtain v where v: "created cr v" by blast
    from on_submit_created_settled [OF v s, of p] on_submit_created_settled [OF v s', of p]
    show ?thesis by auto
  next
    case False
    then have "on_submit p cr wh = on_submit p cr wh'"
      using on_submit_not_created [of cr p wh wh'] by blast
    then show ?thesis by simp
  qed
  have c: "snd (snd (on_submit p cr wh)) = Returns ()
       \<and> success_display (fst (on_submit p cr wh)) = lit ''flex''
       \<and> ticketIdSpan (fst (on_submit p cr wh)) = ticket_id u
       \<and> alerts (fst (snd (on_submit p cr wh))) = []
       \<and> requests (fst (snd (on_submit p cr wh)))
           = [create_request (form_values p), webhook_request u]"
    if u: "created cr u"
    using on_submit_created_settled [OF u s, of p]
    by (auto simp: setLoading_def form_reset_def showSuccess_def)
  show ?thesis using a b c by blast
qed

theorem dispatch_failure_is_swallowed_witness:
  "dispatch_failed (Rejected failed_to_fetch :: unit response promise)
   \<and> snd (triggerN8nWorkflow jane_ticket (Rejected failed_to_fetch :: unit response promise))
       = Returns None
   \<and> fst (on_submit fresh_page (Fulfilled created_201)
             (Rejected failed_to_fetch :: unit response promise))
       = fst (on_submit fresh_page (Fulfilled created_201)
               (Fulfilled \<lparr>http_status = 200, json_body = Fulfilled ()\<rparr>))
   \<and> success_display (fst (on_submit fresh_page (Fulfilled created_201)
             (Rejected failed_to_fetch :: unit response promise))) = lit ''flex''"
proof -
  have h: "dispatch_failed (Rejected failed_to_fetch :: unit response promise)" by simp
  have s: "settled (Fulfilled \<lparr>http_status = 200, json_body = Fulfilled ()\<rparr>)" by simp
  have t: "snd (triggerN8nWorkflow jane_ticket (Rejected failed_to_fetch :: unit response promise))
       = Returns None"
    by (simp add: triggerN8nWorkflow_def)
  show ?thesis
    using h s t created_201_created
      dispatch_failure_is_swallowed [OF h, of jane_ticket
        "Fulfilled \<lparr>http_status = 200, json_body = Fulfilled ()\<rparr>"
        fresh_page "Fulfilled created_201" jane_ticket]
    by blast
qed

text \<open>
  C2, as claimed: the success of a submission is shown without waiting for the dispatch.
  It is not: with the ticket created and the dispatch still pending, the handler is
  suspended after its two requests, the success modal is not shown and the submit
  button stays disabled in the loading state.
\<close>

theorem submit_suspended_while_dispatch_pending:
  "on_submit fresh_page (Fulfilled created_201) (Unsettled :: unit response promise)
     = (setLoading True fresh_page,
        [PreventDefault, Fetch (create_request jane_form), Fetch (webhook_request jane_ticket)],
        Suspended)
   \<and> success_display (setLoading True fresh_page) = lit ''none''
   \<and> success_display (setLoading True fresh_page) \<noteq> lit ''flex''
   \<and> submit_disabled (setLoading True fresh_page) = True"
  by (simp add: on_submit_def submit_try_def createTicket_def triggerN8nWorkflow_def
        created_201_def ok_def setLoading_def fresh_page_def lit_def)

text \<open>
  C2, amended: the handler awaits the dispatch. While the dispatch is pending the run is
  suspended in the loading state with the success display untouched; once the dispatch
  has settled, whichever way, the handler completes and shows the success with the
  ticket's id.
\<close>

theorem submit_success_awaits_dispatch:
  "created cr t \<Longrightarrow>
     on_submit p cr (Unsettled :: 'w response promise)
       = (setLoading True p,
          [PreventDefault, Fetch (create_request (form_values p)), Fetch (webhook_request t)],
          Suspended)
   \<and> success_display (setLoading True p) = success_display p
   \<and> (settled (wh :: 'w response promise) \<longrightarrow>
         snd (snd (on_submit p cr wh)) = Returns ()
       \<and> success_display (fst (on_submit p cr wh)) = lit ''flex''
       \<and> ticketIdSpan (fst (on_submit p cr wh)) = ticket_id t)"
proof -
  assume c: "created cr t"
  have a: "on_submit p cr (Unsettled :: 'w response promise)
       = (setLoading True p,
          [PreventDefault, Fetch (create_request (form_values p)), Fetch (webhook_request t)],
          Suspended)"
    by (simp add: on_submit_def submit_try_def createTicket_created [OF c] triggerN8nWorkflow_def)
  have b: "success_display (setLoading True p) = success_display p"
    by (simp add: setLoading_def)
  have d: "snd (snd (on_submit p cr wh)) = Returns ()
       \<and> success_display (fst (on_submit p cr wh)) = lit ''flex''
       \<and> ticketIdSpan (fst (on_submit p cr wh)) = ticket_id t" if s: "settled wh"
    using on_submit_created_settled [OF c s, of p]
    by (auto simp: setLoading_def form_reset_def showSuccess_def)
  show ?thesis using a b d by blast
qed

theorem submit_success_awaits_dispatch_witness:
  "created (Fulfilled created_201) jane_ticket
   \<and> settled (Rejected failed_to_fetch :: unit response promise)
   \<and> success_display (fst (on_submit fresh_page (Fulfilled created_201)
        (Rejected failed_to_fetch :: unit response promise))) = lit ''flex''"
proof -
  have s: "settled (Rejected failed_to_fetch :: unit response promise)" by simp
  show ?thesis
    using s created_201_created
      submit_success_awaits_dispatch [OF created_201_created, of fresh_page
        "Rejected failed_to_fetch :: unit response promise"]
    by simp
qed

text \<open>
  C3, as claimed: after the health check completes the submit control is enabled in every
  branch. It is not in the loading branch: on a page whose submit button is disabled, a
  probe that reports \<open>loading\<close> completes and leaves the button disabled, with its label
  unchanged.
\<close>

theorem loading_leaves_submit_disabled:
  "snd (snd (checkAIHealth fresh_page (Fulfilled loading_200))) = Returns ()
   \<and> submit_disabled (fst (checkAIHealth fresh_page (Fulfilled loading_200))) = True
   \<and> btn_text (fst (checkAIHealth fresh_page (Fulfilled loading_200))) = lit ''Submit Ticket''"
  by (simp add: checkAIHealth_def loading_200_def fresh_page_def health_loading_def
        lit_connected_loading)

text \<open>
  C3, amended: on a page with the AI status block, a health check whose probe settles
  completes. In the connected, unreachable and probe-error branches the submit control
  is enabled afterwards, and outside the connected branch it is relabelled
  \<open>Submit (AI Offline)\<close>. In the loading branch the check leaves the submit control and
  its label as they were.
\<close>

theorem health_check_submit_control:
  "aiStatus p = Some a \<Longrightarrow> settled (then_json probe) \<Longrightarrow>
     snd (snd (checkAIHealth p probe)) = Returns ()
   \<and> (if reports_loading probe
       then submit_disabled (fst (checkAIHealth p probe)) = submit_disabled p
          \<and> btn_text (fst (checkAIHealth p probe)) = btn_text p
       else submit_disabled (fst (checkAIHealth p probe)) = False
          \<and> (\<not> reports_connected probe \<longrightarrow>
               btn_text (fst (checkAIHealth p probe)) = lit ''Submit (AI Offline)''))"
  by (cases "then_json probe")
     (auto simp: checkAIHealth_def reports_loading_def reports_connected_def
        health_connected_def health_loading_def health_unavailable_def health_error_def
        lit_connected_loading)

theorem health_check_submit_control_witness:
  "aiStatus fresh_page
     = Some \<lparr>icon_text = [], status_text = lit ''Checking AI...'', class_list = []\<rparr>
   \<and> settled (then_json (Rejected failed_to_fetch :: health response promise))
   \<and> submit_disabled (fst (checkAIHealth fresh_page (Rejected failed_to_fetch))) = False
   \<and> btn_text (fst (checkAIHealth fresh_page (Rejected failed_to_fetch)))
       = lit ''Submit (AI Offline)''"
proof -
  have a: "aiStatus fresh_page
      = Some \<lparr>icon_text = [], status_text = lit ''Checking AI...'', class_list = []\<rparr>"
    by (simp add: fresh_page_def)
  have s: "settled (then_json (Rejected failed_to_fetch :: health response promise))" by simp
  show ?thesis
    using a s health_check_submit_control [OF a s]
    by (simp add: reports_loading_def reports_connected_def)
qed

text \<open>
  C7: a run of \<open>checkAIHealth\<close> schedules exactly one timer, \<open>checkAIHealth\<close> again after
  5000 ms, when the probe reports \<open>loading\<close>, and no timer in any other case (connected,
  unreachable, probe error, or no status block and hence no probe).
\<close>

theorem loading_schedules_one_reprobe:
  "timers (fst (snd (checkAIHealth p probe)))
     = (if aiStatus p \<noteq> None \<and> reports_loading probe then [(CheckAIHealth, 5000)] else [])"
  by (cases "aiStatus p"; cases "then_json probe")
     (auto simp: checkAIHealth_def reports_loading_def lit_connected_loading)

theorem loading_schedules_one_reprobe_witness:
  "timers (fst (snd (checkAIHealth fresh_page (Fulfilled loading_200)))) = [(CheckAIHealth, 5000)]"
  using loading_schedules_one_reprobe [of fresh_page "Fulfilled loading_200"]
  by (simp add: fresh_page_def reports_loading_def loading_200_def)

section \<open>Properties of the dashboard\<close>

lemma requests_append: "requests (xs @ ys) = requests xs @ requests ys"
  by (induction xs rule: requests.induct) simp_all

lemma resolve_declined:
  "resolveTicket pf p tid False rr sf tk an = (p, [Confirm confirm_question], Returns ())"
  by (simp add: resolveTicket_def)

lemma resolve_confirmed_requests:
  "\<exists>rest. requests (fst (snd (resolveTicket pf p tid True rr sf tk an)))
            = resolve_request tid # rest"
proof (cases rr)
  case Unsettled
  then show ?thesis by (simp add: resolveTicket_def)
next
  case (Rejected e)
  then show ?thesis by (simp add: resolveTicket_def resolve_catch_def)
next
  case (Fulfilled r)
  show ?thesis
  proof (cases "ok r")
    case False
    then show ?thesis using Fulfilled by (simp add: resolveTicket_def resolve_catch_def)
  next
    case True
    obtain p' ef c where rf: "refreshData pf (closeTicketModal p) sf tk an = (p', ef, c)"
      by (cases "refreshData pf (closeTicketModal p) sf tk an") auto
    show ?thesis using Fulfilled True rf
      by (cases c) (simp_all add: resolveTicket_def requests_append)
  qed
qed

lemma resolve_non_2xx:
  "non_2xx rr \<Longrightarrow>
     resolveTicket pf p tid True rr sf tk an
       = (p, [Confirm confirm_question, Fetch (resolve_request tid),
              ConsoleError (lit ''Error resolving ticket:'')
                (JsError ''Error'' (lit ''Failed to resolve ticket'')),
              Alert resolve_failed_message],
          Returns ())"
  by (cases rr) (simp_all add: non_2xx_def resolveTicket_def resolve_catch_def)

text \<open>
  C8, as claimed: for every ticket id the resolve action issues the POST. It does not
  when the user declines the confirmation: the run sends no request at all.
\<close>

theorem declined_resolve_sends_nothing:
  "requests (fst (snd (resolveTicket sample_platform empty_dash (lit ''7'') False
       (Fulfilled \<lparr>http_status = 200, json_body = Fulfilled ()\<rparr>) False
       (Fulfilled \<lparr>http_status = 200, json_body = Fulfilled (Some [])\<rparr>)
       (Fulfilled \<lparr>http_status = 200, json_body = Fulfilled
          \<lparr>total_tickets = Some 0, status_counts = Some [], category_counts = Some []\<rparr>\<rparr>)))) = []
   \<and> resolve_request (lit ''7'') \<notin> set (requests (fst (snd (resolveTicket sample_platform
       empty_dash (lit ''7'') False
       (Fulfilled \<lparr>http_status = 200, json_body = Fulfilled ()\<rparr>) False
       (Fulfilled \<lparr>http_status = 200, json_body = Fulfilled (Some [])\<rparr>)
       (Fulfilled \<lparr>http_status = 200, json_body = Fulfilled
          \<lparr>total_tickets = Some 0, status_counts = Some [], category_counts = Some []\<rparr>\<rparr>)))))"
  by (simp add: resolveTicket_def)

text \<open>
  C8, amended: for every ticket id, once the user has confirmed, the first request of
  the resolve action is a POST to \<open>/api/tickets/{id}/resolve\<close> with the JSON body
  \<open>{action: "resolved", user: "Dashboard User"}\<close>; when the user declines, nothing is sent
  and the page is left as it is. An answer outside 200 to 299 is a failure: the page is
  unchanged (the modal stays, no refresh), the resolve request is the only request,
  and the failure alert is shown.
\<close>

theorem resolve_request_after_confirmation:
  "(answer \<longrightarrow>
      (\<exists>rest. requests (fst (snd (resolveTicket pf p tid answer rr sf tk an)))
               = resolve_request tid # rest))
   \<and> (\<not> answer \<longrightarrow>
        resolveTicket pf p tid answer rr sf tk an = (p, [Confirm confirm_question], Returns ()))
   \<and> url (resolve_request tid) = lit ''/api/tickets/'' @ tid @ lit ''/resolve''
   \<and> http_method (resolve_request tid) = ''POST''
   \<and> req_body (resolve_request tid)
       = ObjectJson [(''action'', lit ''resolved''), (''user'', lit ''Dashboard User'')]
   \<and> (answer \<and> non_2xx rr \<longrightarrow>
        fst (resolveTicket pf p tid answer rr sf tk an) = p
      \<and> requests (fst (snd (resolveTicket pf p tid answer rr sf tk an))) = [resolve_request tid]
      \<and> alerts (fst (snd (resolveTicket pf p tid answer rr sf tk an))) = [resolve_failed_message]
      \<and> snd (snd (resolveTicket pf p tid answer rr sf tk an)) = Returns ())"
proof -
  have a: "answer \<longrightarrow>
      (\<exists>rest. requests (fst (snd (resolveTicket pf p tid answer rr sf tk an)))
               = resolve_request tid # rest)"
    using resolve_confirmed_requests [of pf p tid rr sf tk an] by (cases answer) simp_all
  have b: "\<not> answer \<longrightarrow>
        resolveTicket pf p tid answer rr sf tk an = (p, [Confirm confirm_question], Returns ())"
    using resolve_declined [of pf p tid rr sf tk an] by (cases answer) simp_all
  have c: "url (resolve_request tid) = lit ''/api/tickets/'' @ tid @ lit ''/resolve''"
    "http_method (resolve_request tid) = ''POST''"
    "req_body (resolve_request tid)
       = ObjectJson [(''action'', lit ''resolved''), (''user'', lit ''Dashboard User'')]"
    by (simp_all add: resolve_request_def API_BASE_def lit_def)
  have d: "answer \<and> non_2xx rr \<longrightarrow>
        fst (resolveTicket pf p tid answer rr sf tk an) = p
      \<and> requests (fst (snd (resolveTicket pf p tid answer rr sf tk an))) = [resolve_request tid]
      \<and> alerts (fst (snd (resolveTicket pf p tid answer rr sf tk an))) = [resolve_failed_message]
      \<and> snd (snd (resolveTicket pf p tid answer rr sf tk an)) = Returns ()"
    using resolve_non_2xx [of rr pf p tid sf tk an] by (cases answer) auto
  show ?thesis using a b c d by blast
qed

theorem resolve_request_after_confirmation_witness:
  "non_2xx (Fulfilled \<lparr>http_status = 404, json_body = Fulfilled ()\<rparr>)
   \<and> fst (resolveTicket sample_platform empty_dash (lit ''7'') True
        (Fulfilled \<lparr>http_status = 404, json_body = Fulfilled ()\<rparr>) False
        (Unsettled :: ticket list option response promise)
        (Unsettled :: analytics response promise)) = empty_dash
   \<and> requests (fst (snd (resolveTicket sample_platform empty_dash (lit ''7'') True
        (Fulfilled \<lparr>http_status = 404, json_body = Fulfilled ()\<rparr>) False
        (Unsettled :: ticket list option response promise)
        (Unsettled :: analytics response promise)))) = [resolve_request (lit ''7'')]"
proof -
  have h: "non_2xx (Fulfilled \<lparr>http_status = 404, json_body = Fulfilled ()\<rparr>)"
    by (simp add: non_2xx_def ok_def)
  show ?thesis
    using h resolve_request_after_confirmation [of True sample_platform empty_dash "lit ''7''"
        "Fulfilled \<lparr>http_status = 404, json_body = Fulfilled ()\<rparr>" False Unsettled Unsettled]
    by simp
qed


lemma markup_Cons:
  "markup (c # cs) = (if c = 0x3C \<or> c = 0x3E then c # markup cs else markup cs)"
  by (simp add: markup_def)



















lemma sublist_head2: "sublist (a @ b) (a @ b @ ss)"
  using sublist_append_rightI [of "a @ b" ss] by simp
















section \<open>Properties of the ticket core\<close>

lemma sum_values_Nil: "sum_values [] = 0"
  by (simp add: sum_values_def)

lemma sum_values_increment: "sum_values (increment k m) = Suc (sum_values m)"
  by (induction m) (auto simp: sum_values_def)

lemma tally_status:
  "sum_values (snap_status_counts (tally u ts snap))
     = sum_values (snap_status_counts snap) + length ts"
  by (induction ts arbitrary: snap) (simp_all add: sum_values_increment)

lemma tally_total: "snap_total_tickets (tally u ts snap) = snap_total_tickets snap"
  by (induction ts arbitrary: snap) simp_all

text \<open>
  C4: the status counts of the analytics snapshot add up to \<open>total_tickets\<close>, for the
  tickets of every store reached by a sequence of operations and indeed for every list
  of tickets.
\<close>

theorem status_counts_sum_to_total:
  "sum_values (snap_status_counts (summarize u (tickets (run template empty_store ops))))
     = snap_total_tickets (summarize u (tickets (run template empty_store ops)))
   \<and> sum_values (snap_status_counts (summarize u ts)) = snap_total_tickets (summarize u ts)"
  by (simp add: summarize_def tally_status tally_total sum_values_Nil)

theorem status_counts_sum_to_total_witness:
  "sum_values (snap_status_counts (summarize False (tickets (run reply_template empty_store
       [Create jane_input 100, Classify 0 pto_reply, Resolve 0 ''Alice'' 200]))))
     = snap_total_tickets (summarize False (tickets (run reply_template empty_store
       [Create jane_input 100, Classify 0 pto_reply, Resolve 0 ''Alice'' 200])))"
  using status_counts_sum_to_total [of False reply_template
      "[Create jane_input 100, Classify 0 pto_reply, Resolve 0 ''Alice'' 200]" "[]"]
  by simp
lemma get_Inr_iff: "get s i = Inr t \<longleftrightarrow> find (\<lambda>t. st_id t = i) (tickets s) = Some t"
  by (simp add: get_def split: option.splits)

lemma find_map_other:
  assumes "\<And>u. st_id (f u) = st_id u" "j \<noteq> i"
  shows "find (\<lambda>t. st_id t = j) (map (\<lambda>u. if st_id u = i then f u else u) ts)
           = find (\<lambda>t. st_id t = j) ts"
  using assms by (induction ts) auto

lemma find_map_same:
  assumes "\<And>u. st_id (f u) = st_id u"
  shows "find (\<lambda>t. st_id t = i) (map (\<lambda>u. if st_id u = i then f u else u) ts)
           = map_option f (find (\<lambda>t. st_id t = i) ts)"
  using assms by (induction ts) auto

lemma get_update:
  assumes "\<And>u. st_id (f u) = st_id u" "update s i f = Inr (s', r)" "get s j = Inr t"
  shows "get s' j = Inr (if j = i then f t else t)"
proof -
  from assms(2) have s': "s' = s\<lparr>tickets := map (\<lambda>u. if st_id u = i then f u else u) (tickets s)\<rparr>"
    by (auto simp: update_def split: sum.splits)
  show ?thesis
  proof (cases "j = i")
    case True
    then show ?thesis using assms(3) find_map_same [of f i "tickets s", OF assms(1)]
      by (simp add: s' get_Inr_iff)
  next
    case False
    then show ?thesis using assms(3) find_map_other [of f j i "tickets s", OF assms(1)]
      by (simp add: s' get_Inr_iff)
  qed
qed

lemma find_append_Some:
  "find P xs = Some x \<Longrightarrow> find P (xs @ ys) = Some x"
  by (induction xs) auto

lemma classify_Inr:
  assumes "classify template s j reply = Inr (s', res)"
  shows "s' = s \<or> (\<exists>c x u. update s j (classified_fields template c x) = Inr (s', u))"
proof (cases "read_reply reply")
  case (Inl e)
  then show ?thesis using assms by (simp add: classify_def)
next
  case (Inr r)
  show ?thesis
  proof (cases r)
    case None
    then show ?thesis using assms Inr by (simp add: classify_def)
  next
    case (Some cx)
    then obtain c x where "cx = (c, x)" by (cases cx) auto
    then show ?thesis using assms Inr Some
      by (auto simp: classify_def split: sum.splits)
  qed
qed

lemma step_monotone:
  assumes "get s i = Inr t"
  shows "\<exists>t'. get (apply_operation template s op) i = Inr t'
            \<and> rank (st_status t) \<le> rank (st_status t')"
proof (cases op)
  case (Create inp now)
  show ?thesis
  proof (cases "create s inp now")
    case (Inl e)
    then show ?thesis using Create assms by (simp add: apply_operation_def)
  next
    case (Inr r)
    then obtain s' u where r: "r = (s', u)" by (cases r) auto
    from Inr r have "\<exists>n. tickets s' = tickets s @ [n]"
      by (auto simp: create_def Let_def split: if_splits)
    then have "get s' i = Inr t"
      using assms by (auto simp: get_Inr_iff find_append_Some)
    then show ?thesis using Create Inr r by (auto simp: apply_operation_def)
  qed
next
  case (Classify j reply)
  show ?thesis
  proof (cases "classify template s j reply")
    case (Inl e)
    then show ?thesis using Classify assms by (simp add: apply_operation_def)
  next
    case (Inr r)
    then obtain s' res where r: "r = (s', res)" by (cases r) auto
    from classify_Inr [of template s j reply s' res] Inr r
    consider "s' = s" | c x u where "update s j (classified_fields template c x) = Inr (s', u)"
      by auto
    then show ?thesis
    proof cases
      case 1
      then show ?thesis using Classify Inr r assms by (auto simp: apply_operation_def)
    next
      case 2
      have "get s' i = Inr (if i = j then classified_fields template c x t else t)"
        by (rule get_update [OF _ 2 assms]) (simp add: classified_fields_def)
      moreover have "rank (st_status t) \<le> rank (st_status (classified_fields template c x t))"
        by (simp add: classified_fields_def)
      ultimately show ?thesis using Classify Inr r by (auto simp: apply_operation_def)
    qed
  qed
next
  case (Resolve j actor now)
  show ?thesis
  proof (cases "resolve s j actor now")
    case (Inl e)
    then show ?thesis using Resolve assms by (simp add: apply_operation_def)
  next
    case (Inr r)
    then obtain s' u where r: "r = (s', u)" by (cases r) auto
    let ?f = "\<lambda>u. u\<lparr>st_status := Resolved, st_resolved_at := Some now,
                       st_resolved_by := Some actor\<rparr>"
    from Inr r have u: "update s j ?f = Inr (s', u)"
      by (auto simp: resolve_def split: sum.splits if_splits)
    have "get s' i = Inr (if i = j then ?f t else t)"
      by (rule get_update [OF _ u assms]) simp
    moreover have "rank (st_status t) \<le> rank (st_status (?f t))"
      by (cases "st_status t") simp_all
    ultimately show ?thesis using Resolve Inr r by (auto simp: apply_operation_def)
  qed
qed

lemma run_monotone:
  "get s i = Inr t \<Longrightarrow>
     \<exists>t'. get (run template s ops) i = Inr t' \<and> rank (st_status t) \<le> rank (st_status t')"
proof (induction ops arbitrary: s t)
  case Nil
  then show ?case by simp
next
  case (Cons op ops)
  from step_monotone [OF Cons.prems, of template op] obtain u where
    u: "get (apply_operation template s op) i = Inr u" "rank (st_status t) \<le> rank (st_status u)"
    by blast
  from Cons.IH [OF u(1)] obtain t' where
    "get (run template (apply_operation template s op) ops) i = Inr t'"
    "rank (st_status u) \<le> rank (st_status t')" by blast
  then show ?case using u(2) by (auto intro: le_trans)
qed

lemma rank_Resolved: "rank Resolved \<le> rank x \<Longrightarrow> x = Resolved"
  by (cases x) simp_all

lemma update_keeps:
  assumes "\<And>u. st_id (f u) = st_id u" "update s i f = Inr (s', r)" "ids_below s"
  shows "ids_below s'"
  using assms by (auto simp: update_def ids_below_def split: sum.splits)

lemma step_ids_below: "ids_below s \<Longrightarrow> ids_below (apply_operation template s op)"
proof (cases op)
  case (Create inp now)
  assume "ids_below s"
  then show ?thesis using Create
    by (auto simp: apply_operation_def create_def ids_below_def Let_def less_Suc_eq
             split: sum.splits if_splits)
next
  case (Classify j reply)
  assume a: "ids_below s"
  show ?thesis
  proof (cases "classify template s j reply")
    case (Inl e)
    then show ?thesis using Classify a by (simp add: apply_operation_def)
  next
    case (Inr r)
    then obtain s' res where r: "r = (s', res)" by (cases r) auto
    from classify_Inr [of template s j reply s' res] Inr r
    consider "s' = s" | c x u where "update s j (classified_fields template c x) = Inr (s', u)"
      by auto
    then have "ids_below s'"
    proof cases
      case 1
      then show ?thesis using a by simp
    next
      case 2
      show ?thesis by (rule update_keeps [OF _ 2 a]) (simp add: classified_fields_def)
    qed
    then show ?thesis using Classify Inr r by (simp add: apply_operation_def)
  qed
next
  case (Resolve j actor now)
  assume a: "ids_below s"
  show ?thesis
  proof (cases "resolve s j actor now")
    case (Inl e)
    then show ?thesis using Resolve a by (simp add: apply_operation_def)
  next
    case (Inr r)
    then obtain s' u where r: "r = (s', u)" by (cases r) auto
    let ?f = "\<lambda>u. u\<lparr>st_status := Resolved, st_resolved_at := Some now,
                       st_resolved_by := Some actor\<rparr>"
    from Inr r have u: "update s j ?f = Inr (s', u)"
      by (auto simp: resolve_def split: sum.splits if_splits)
    have "ids_below s'" by (rule update_keeps [OF _ u a]) simp
    then show ?thesis using Resolve Inr r by (simp add: apply_operation_def)
  qed
qed

lemma run_ids_below: "ids_below s \<Longrightarrow> ids_below (run template s ops)"
  by (induction ops arbitrary: s) (simp_all add: step_ids_below)

lemma empty_ids_below: "ids_below empty_store"
  by (simp add: ids_below_def empty_store_def)

lemma find_fresh:
  "\<forall>t \<in> set ts. st_id t \<noteq> st_id n \<Longrightarrow> find (\<lambda>t. st_id t = st_id n) (ts @ [n]) = Some n"
  by (induction ts) auto

lemma create_pending:
  assumes "ids_below s" "create s inp now = Inr (s', t)"
  shows "get s' (st_id t) = Inr t \<and> st_status t = Pending
       \<and> st_ai_category t = None \<and> st_ai_confidence t = None \<and> st_ai_response t = None"
proof -
  from assms(2) have t: "tickets s' = tickets s @ [t]" "st_id t = next_id s"
    "st_status t = Pending" "st_ai_category t = None" "st_ai_confidence t = None"
    "st_ai_response t = None"
    by (auto simp: create_def Let_def split: if_splits)
  have "\<forall>u \<in> set (tickets s). st_id u \<noteq> st_id t"
    using assms(1) t(2) by (auto simp: ids_below_def)
  then have "get s' (st_id t) = Inr t"
    by (simp add: get_Inr_iff t(1) find_fresh)
  then show ?thesis using t by simp
qed


text \<open>
  C5: a ticket starts at \<open>pending\<close>: the record \<open>create\<close> returns is pending and, in a
  store reached by operations, it is the record stored under its id. From then on its
  status only moves forward along \<open>pending \<rightarrow> classified \<rightarrow> resolved\<close>: whatever operations
  follow, the ticket is still there and its rank has not gone down, so a resolved ticket
  stays resolved.
\<close>

theorem status_moves_only_forward:
  "(create (run template empty_store ops0) inp now = Inr (s', n) \<longrightarrow>
      get s' (st_id n) = Inr n \<and> st_status n = Pending)
   \<and> (get s i = Inr t \<longrightarrow>
        (\<exists>t'. get (run template s ops) i = Inr t'
             \<and> rank (st_status t) \<le> rank (st_status t')
             \<and> (st_status t = Resolved \<longrightarrow> st_status t' = Resolved)))"
proof -
  have a: "get s' (st_id n) = Inr n \<and> st_status n = Pending"
    if c: "create (run template empty_store ops0) inp now = Inr (s', n)"
    using create_pending [OF run_ids_below [OF empty_ids_below] c] by simp
  have b: "\<exists>t'. get (run template s ops) i = Inr t'
             \<and> rank (st_status t) \<le> rank (st_status t')
             \<and> (st_status t = Resolved \<longrightarrow> st_status t' = Resolved)"
    if g: "get s i = Inr t"
  proof -
    from run_monotone [OF g, of template ops] obtain t' where
      t': "get (run template s ops) i = Inr t'" "rank (st_status t) \<le> rank (st_status t')"
      by blast
    have "st_status t' = Resolved" if "st_status t = Resolved"
      using t'(2) that by (simp add: rank_Resolved)
    then show ?thesis using t' by blast
  qed
  show ?thesis using a b by blast
qed

lemma jane_resolved:
  "get (run reply_template empty_store
          [Create jane_input 100, Classify 0 pto_reply, Resolve 0 ''Alice'' 200]) 0
     = Inr \<lparr>st_id = 0, st_employee_name = ''Jane Doe'', st_employee_email = ''jane@co.com'',
            st_subject = ''PTO balance'', st_description = ''How many days do I have left?'',
            st_status = Resolved, st_ai_category = Some PTO, st_ai_confidence = Some (92 / 100),
            st_ai_response = Some ''Thank you for your request.'',
            st_created_at = 100, st_resolved_at = Some 200, st_resolved_by = Some ''Alice''\<rparr>"
  by (simp add: apply_operation_def create_def classify_def resolve_def update_def get_def
        read_reply_def classified_fields_def blank_def jane_input_def pto_reply_def
        reply_template_def empty_store_def Let_def)

theorem status_moves_only_forward_witness:
  "\<exists>t'. get (run reply_template
            (run reply_template empty_store
               [Create jane_input 100, Classify 0 pto_reply, Resolve 0 ''Alice'' 200])
            [Classify 0 pto_reply, Resolve 0 ''Bob'' 300, Create jane_input 400]) 0 = Inr t'
        \<and> st_status t' = Resolved"
  using jane_resolved
    status_moves_only_forward [of reply_template "[]" jane_input 0 empty_store
      "\<lparr>st_id = 0, st_employee_name = ''Jane Doe'', st_employee_email = ''jane@co.com'',
         st_subject = ''PTO balance'', st_description = ''How many days do I have left?'',
         st_status = Pending, st_ai_category = None, st_ai_confidence = None,
         st_ai_response = None, st_created_at = 0, st_resolved_at = None,
         st_resolved_by = None\<rparr>"
      "run reply_template empty_store
         [Create jane_input 100, Classify 0 pto_reply, Resolve 0 ''Alice'' 200]"
      0
      "\<lparr>st_id = 0, st_employee_name = ''Jane Doe'', st_employee_email = ''jane@co.com'',
         st_subject = ''PTO balance'', st_description = ''How many days do I have left?'',
         st_status = Resolved, st_ai_category = Some PTO, st_ai_confidence = Some (92 / 100),
         st_ai_response = Some ''Thank you for your request.'',
         st_created_at = 100, st_resolved_at = Some 200, st_resolved_by = Some ''Alice''\<rparr>"
      "[Classify 0 pto_reply, Resolve 0 ''Bob'' 300, Create jane_input 400]"]
  by auto

lemma failed_classify:
  "failed_reply reply \<Longrightarrow> classify template s i reply = Inr (s, ClassificationUnavailable)"
  by (cases reply) (simp_all add: classify_def read_reply_def)

lemma failed_attempts:
  "list_all failed_reply replies \<Longrightarrow> run template s (map (Classify i) replies) = s"
  by (induction replies) (simp_all add: apply_operation_def failed_classify)

lemma jane_submitted:
  "create empty_store jane_input 100 = Inr (jane_store, jane_pending)"
  "get jane_store 0 = Inr jane_pending"
  by (simp_all add: create_def get_def blank_def jane_input_def jane_store_def jane_pending_def
        empty_store_def Let_def)

text \<open>
  C6: take a ticket that is stored pending with \<open>ai_category\<close>, \<open>ai_confidence\<close> and
  \<open>ai_response\<close> absent, and any number of classification attempts on it that fail by
  timeout, service error or malformed response. Every attempt returns
  \<open>ClassificationUnavailable\<close> as a value, not an error, and after all of them the store
  is the same and the ticket is still stored pending with the three fields absent.
\<close>

theorem failed_classification_keeps_pending:
  assumes "get s i = Inr t" "st_status t = Pending"
    "st_ai_category t = None" "st_ai_confidence t = None" "st_ai_response t = None"
    "list_all failed_reply replies"
  shows "(\<forall>reply \<in> set replies.
            classify template s i reply = Inr (s, ClassificationUnavailable))
       \<and> run template s (map (Classify i) replies) = s
       \<and> (\<exists>t'. get (run template s (map (Classify i) replies)) i = Inr t'
               \<and> st_status t' = Pending \<and> st_ai_category t' = None
               \<and> st_ai_confidence t' = None \<and> st_ai_response t' = None)"
proof -
  have a: "\<forall>reply \<in> set replies.
            classify template s i reply = Inr (s, ClassificationUnavailable)"
    using assms(6) by (auto simp: list_all_iff failed_classify)
  have b: "run template s (map (Classify i) replies) = s"
    by (rule failed_attempts [OF assms(6)])
  show ?thesis using a b assms(1-5) by simp
qed

theorem failed_classification_keeps_pending_witness:
  "create empty_store jane_input 100 = Inr (jane_store, jane_pending)
   \<and> get jane_store 0 = Inr jane_pending \<and> st_status jane_pending = Pending
   \<and> st_ai_category jane_pending = None \<and> st_ai_confidence jane_pending = None
   \<and> st_ai_response jane_pending = None
   \<and> list_all failed_reply [Timeout, ServiceError, Malformed]
   \<and> classify reply_template jane_store 0 Timeout = Inr (jane_store, ClassificationUnavailable)
   \<and> get (run reply_template jane_store
            [Classify 0 Timeout, Classify 0 ServiceError, Classify 0 Malformed]) 0
       = Inr jane_pending"
proof -
  have g: "get jane_store 0 = Inr jane_pending" by (rule jane_submitted(2))
  have p: "st_status jane_pending = Pending" "st_ai_category jane_pending = None"
    "st_ai_confidence jane_pending = None" "st_ai_response jane_pending = None"
    by (simp_all add: jane_pending_def)
  have f: "list_all failed_reply [Timeout, ServiceError, Malformed]" by simp
  show ?thesis
    using g p f jane_submitted(1)
      failed_classification_keeps_pending [OF g p f, of reply_template]
    by simp
qed

end
